theory Spec2Isabelle
  imports Complex_Main
begin

section \<open>PaliGemma Vision QA: a shallow embedding of \<open>PaliGemma.py\<close>\<close>

text \<open>
  The script is a Streamlit page: on every user interaction the framework reruns
  \<open>main()\<close> from the top with the current widget values and the session state that
  survived the previous run.  The embedding follows that shape:
  \<^item> the widget values of one rerun are a record (\<open>widgets\<close>);
  \<^item> everything that survives or is observable is a record (\<open>world\<close>): the session
    state, the \<open>st.cache_resource\<close> cache, the wall clock and the ordered trace of the
    library calls and page outputs performed so far;
  \<^item> the collaborators the script only calls (torch, transformers, requests, PIL) are a
    record of functions (\<open>env\<close>); each returns a value or raises, as a sum \<open>exn + 'a\<close>;
  \<^item> every statement that can raise is a branch: a program is a function
    \<open>world \<Rightarrow> (exn + 'a) \<times> world\<close>.
  Static page furniture (page config, CSS, title, headers, column layout, captions) has no
  effect on any value computed by the script and is left out of the trace.
\<close>

subsection \<open>Strings\<close>

text \<open>
  A Python \<open>str\<close> is a sequence of Unicode code points; the page's labels are Chinese, so
  a string is a list of code points.  \<open>ustr\<close> embeds an ASCII literal.
\<close>

type_synonym ustring = "nat list"

definition ustr :: "string \<Rightarrow> ustring" where
  "ustr s = map of_char s"

text \<open>
  \<open>str.isspace\<close> on one code point, as CPython's Unicode database has it; \<open>str.strip()\<close>
  with no argument removes exactly these from both ends.
\<close>

definition isspace :: "nat \<Rightarrow> bool" where
  "isspace c \<longleftrightarrow>
     (0x09 \<le> c \<and> c \<le> 0x0D) \<or> (0x1C \<le> c \<and> c \<le> 0x20) \<or> c = 0x85 \<or> c = 0xA0 \<or>
     c = 0x1680 \<or> (0x2000 \<le> c \<and> c \<le> 0x200A) \<or> c = 0x2028 \<or> c = 0x2029 \<or>
     c = 0x202F \<or> c = 0x205F \<or> c = 0x3000"

definition strip :: "ustring \<Rightarrow> ustring" where
  "strip s = rev (dropWhile isspace (rev (dropWhile isspace s)))"

subsection \<open>Exceptions\<close>

text \<open>
  A raised instance of Python's \<open>Exception\<close>: its class and its \<open>str(e)\<close>.  Both handlers
  of the script are \<open>except Exception\<close>, and every failure of the libraries involved is
  an \<open>Exception\<close>.
\<close>

datatype exn_class =
    Timeout | ConnectionError | HTTPError | ChunkedEncodingError
  | UnidentifiedImageError | OSError | ValueError | TypeError | IndexError
  | RuntimeError | OutOfMemoryError

datatype exn = Exn exn_class ustring

fun exn_str :: "exn \<Rightarrow> ustring" where
  "exn_str (Exn c msg) = msg"

fun exn_kind :: "exn \<Rightarrow> exn_class" where
  "exn_kind (Exn c msg) = c"

subsection \<open>Images (PIL)\<close>

type_synonym bytes = "nat list"

datatype color_mode = Mode1 | L | LA | P | PA | RGB | RGBA | CMYK | YCbCr | I16 | F

datatype band = Band_1 | Band_L | Band_A | Band_P | Band_R | Band_G | Band_B
  | Band_C | Band_M | Band_Y | Band_K | Band_Cb | Band_Cr | Band_I | Band_F

text \<open>\<open>Image.getbands()\<close>: the channels of an image are determined by its mode.\<close>

fun getbands :: "color_mode \<Rightarrow> band list" where
  "getbands Mode1 = [Band_1]"
| "getbands L = [Band_L]"
| "getbands LA = [Band_L, Band_A]"
| "getbands P = [Band_P]"
| "getbands PA = [Band_P, Band_A]"
| "getbands RGB = [Band_R, Band_G, Band_B]"
| "getbands RGBA = [Band_R, Band_G, Band_B, Band_A]"
| "getbands CMYK = [Band_C, Band_M, Band_Y, Band_K]"
| "getbands YCbCr = [Band_Y, Band_Cb, Band_Cr]"
| "getbands I16 = [Band_I]"
| "getbands F = [Band_F]"

text \<open>An in-memory \<open>PIL.Image.Image\<close>: mode, size and the raster (opaque to the script).\<close>

record pil_image =
  im_mode :: color_mode
  im_size :: "nat \<times> nat"
  im_data :: "nat list"

subsection \<open>Tensors, devices, HTTP responses\<close>

datatype device = Cuda | Cpu

datatype dtype = BFloat16 | Float16 | Float32

text \<open>
  The processor's \<open>BatchFeature\<close> is opaque to the script: it is only moved, cast and
  handed to \<open>generate\<close>.
\<close>

datatype tensors = Tensors nat

type_synonym token = nat

text \<open>
  A \<open>requests.Response\<close> obtained with \<open>stream=True\<close>: the body has not been read when
  \<open>get\<close> returns, so reading \<open>.content\<close> may still raise.  \<open>error_text\<close> is the
  message \<open>raise_for_status\<close> gives its \<open>HTTPError\<close> for this response.
\<close>

record response =
  status_code :: nat
  error_text :: ustring
  content :: "exn + bytes"

subsection \<open>The trace: library calls and page outputs, in program order\<close>

datatype event =
    StSpinner ustring
  | StInfo ustring
  | StSuccess ustring
  | StWarning ustring
  | StError ustring
  | StImage pil_image
  | StResultBox ustring
  | StMetricTime real
  | StMetric ustring ustring
  | StCode ustring
  | StButton ustring
  | StRadio "ustring list"
  | StFileUploader
  | StTextInput
  | StCameraInput
  | StTextArea
  | CudaIsAvailable
  | ModelFromPretrained ustring dtype device
  | ProcessorFromPretrained ustring
  | RequestsGet ustring bool nat
  | ReadContent
  | ImageOpen bytes
  | Convert pil_image color_mode
  | ProcessorCall ustring pil_image ustring bool ustring
  | ToDevice tensors device
  | ToDtype tensors dtype
  | TimeTime
  | Generate tensors nat bool
  | Decode "token list" bool

subsection \<open>The collaborators\<close>

text \<open>
  \<open>m_generate inputs max_length grad_enabled\<close> is \<open>model.generate(**inputs,
  max_length=...)\<close> run with torch's gradient mode as given; it returns the batch of
  generated token sequences.  \<open>p_call text images padding do_convert_rgb return_tensors\<close>
  is the processor called on a question and an image; \<open>p_decode ids skip_special_tokens\<close>
  is \<open>processor.decode\<close>.
\<close>

record model =
  m_dtype :: dtype
  m_generate :: "tensors \<Rightarrow> nat \<Rightarrow> bool \<Rightarrow> exn + token list list"

record processor =
  p_call :: "ustring \<Rightarrow> pil_image \<Rightarrow> ustring \<Rightarrow> bool \<Rightarrow> ustring \<Rightarrow> exn + tensors"
  p_decode :: "token list \<Rightarrow> bool \<Rightarrow> exn + ustring"

record env =
  cuda_is_available :: bool
  model_from_pretrained :: "ustring \<Rightarrow> dtype \<Rightarrow> device \<Rightarrow> exn + model"
  processor_from_pretrained :: "ustring \<Rightarrow> exn + processor"
  requests_get :: "ustring \<Rightarrow> bool \<Rightarrow> nat \<Rightarrow> exn + response"
  image_open :: "bytes \<Rightarrow> exn + pil_image"
  convert_data :: "pil_image \<Rightarrow> color_mode \<Rightarrow> exn + nat list"
  to_device :: "tensors \<Rightarrow> device \<Rightarrow> exn + tensors"
  to_dtype :: "tensors \<Rightarrow> dtype \<Rightarrow> exn + tensors"
  duration :: "event \<Rightarrow> real"

subsection \<open>Session state and the world\<close>

record session_state =
  ss_model :: "model option"
  ss_processor :: "processor option"
  ss_device :: device

text \<open>
  \<open>inference_calls\<close> is a ghost counter: the number of times \<open>inference\<close> has been
  entered.  Nothing in the program reads it.
\<close>

record world =
  session :: session_state
  resource_cache :: "(model \<times> processor \<times> device) option"
  clock :: real
  trace :: "event list"
  inference_calls :: nat

text \<open>Lines 30 to 35: keys missing from a fresh session are initialised.\<close>

definition init_session_state :: "env \<Rightarrow> session_state option \<Rightarrow> session_state" where
  "init_session_state E prior =
     (case prior of
        None \<Rightarrow> \<lparr>ss_model = None, ss_processor = None,
                 ss_device = (if cuda_is_available E then Cuda else Cpu)\<rparr>
      | Some s \<Rightarrow> s)"

subsection \<open>Programs: state passing with exceptions\<close>

type_synonym 'a prog = "world \<Rightarrow> (exn + 'a) \<times> world"

definition returnE :: "'a \<Rightarrow> 'a prog" where
  "returnE x w = (Inr x, w)"

definition bindE :: "'a prog \<Rightarrow> ('a \<Rightarrow> 'b prog) \<Rightarrow> 'b prog" where
  "bindE m f w = (case m w of (Inl e, w') \<Rightarrow> (Inl e, w') | (Inr x, w') \<Rightarrow> f x w')"

text \<open>Reading \<open>st.session_state\<close>.\<close>

definition get_session :: "session_state prog" where
  "get_session w = (Inr (session w), w)"

text \<open>A function of the script that handles its own exceptions always returns.\<close>

definition no_raise :: "(world \<Rightarrow> 'a \<times> world) \<Rightarrow> 'a prog" where
  "no_raise m w = (case m w of (x, w') \<Rightarrow> (Inr x, w'))"

text \<open>
  Performing a call or an output appends it to the trace and lets its duration pass on
  the wall clock.
\<close>

definition perform :: "env \<Rightarrow> event \<Rightarrow> world \<Rightarrow> world" where
  "perform E ev w = w\<lparr>clock := clock w + duration E ev, trace := trace w @ [ev]\<rparr>"

definition call :: "env \<Rightarrow> event \<Rightarrow> (exn + 'a) \<Rightarrow> 'a prog" where
  "call E ev r w = (r, perform E ev w)"

definition render :: "env \<Rightarrow> event \<Rightarrow> unit prog" where
  "render E ev w = (Inr (), perform E ev w)"

text \<open>
  \<open>time.time()\<close>: the reading is the clock at the moment of the call; the read itself is
  recorded in the trace and lets its own duration pass afterwards.
\<close>

definition time_time :: "env \<Rightarrow> real prog" where
  "time_time E w = (Inr (clock w), perform E TimeTime w)"

subsection \<open>The page's string literals\<close>

text \<open>Each literal is given by its code points, in the order of the source text.\<close>

definition model_id :: ustring where
  "model_id = ustr ''google/PaliGemma-3b-mix-224''"

definition loading_text :: ustring where
  "loading_text = [0x6B63, 0x5728, 0x8F09, 0x5165, 0x20] @ ustr ''PaliGemma '' @
     [0x6A21, 0x578B] @ ustr ''... '' @ [0x9019, 0x53EF, 0x80FD, 0x9700, 0x8981] @
     ustr '' 1-2 '' @ [0x5206, 0x9418]"

definition device_prefix :: ustring where
  "device_prefix = [0x4F7F, 0x7528, 0x8A2D, 0x5099, 0x3A, 0x20]"

definition load_button :: ustring where
  "load_button = [0x8F09, 0x5165, 0x6A21, 0x578B]"

definition loaded_text :: ustring where
  "loaded_text = [0x6A21, 0x578B, 0x5DF2, 0x8F09, 0x5165, 0x21]"

definition load_first_text :: ustring where
  "load_first_text = [0x8ACB, 0x5148, 0x9EDE, 0x64CA, 0x4E0A, 0x65B9, 0x6309, 0x9215,
     0x8F09, 0x5165, 0x6A21, 0x578B]"

text \<open>The three radio options of line 120.\<close>

definition option_upload :: ustring where
  "option_upload = [0x4E0A, 0x50B3, 0x672C, 0x6A5F, 0x6A94, 0x6848]"

definition option_url :: ustring where
  "option_url = [0x8F38, 0x5165, 0x5716, 0x7247, 0x20, 0x55, 0x52, 0x4C]"

definition option_camera :: ustring where
  "option_camera = [0x62CD, 0x651D, 0x7167, 0x7247]"

definition image_source_options :: "ustring list" where
  "image_source_options = [option_upload, option_url, option_camera]"

text \<open>
  The literal the third branch compares with (line 142): U+1F4F7 (a camera emoji), a
  space, then the four characters of the third option.
\<close>

definition camera_branch_literal :: ustring where
  "camera_branch_literal = [0x1F4F7, 0x20, 0x62CD, 0x651D, 0x7167, 0x7247]"

definition fetch_button :: ustring where
  "fetch_button = [0x1F4E5, 0x20, 0x8F09, 0x5165, 0x5716, 0x7247]"

definition ask_button :: ustring where
  "ask_button = [0x8A62, 0x554F, 0x20, 0x41, 0x49]"

definition no_model_text :: ustring where
  "no_model_text = [0x8ACB, 0x5148, 0x5728, 0x5DE6, 0x5074, 0x8F09, 0x5165, 0x6A21,
     0x578B, 0x21]"

definition no_image_text :: ustring where
  "no_image_text = [0x8ACB, 0x5148, 0x9078, 0x64C7, 0x4E00, 0x5F35, 0x5716, 0x7247, 0x21]"

definition no_question_text :: ustring where
  "no_question_text = [0x8ACB, 0x8F38, 0x5165, 0x554F, 0x984C, 0x21]"

definition thinking_text :: ustring where
  "thinking_text = ustr ''AI '' @ [0x6B63, 0x5728, 0x601D, 0x8003, 0x4E2D] @ ustr ''...''"

definition inference_error_prefix :: ustring where
  "inference_error_prefix = [0x932F, 0x8AA4, 0x3A, 0x20]"

definition url_error_prefix :: ustring where
  "url_error_prefix = [0x7121, 0x6CD5, 0x5F9E, 0x20] @ ustr ''URL '' @
     [0x8F09, 0x5165, 0x5716, 0x7247, 0x3A, 0x20]"

definition model_size_label :: ustring where
  "model_size_label = [0x6A21, 0x578B, 0x5927, 0x5C0F]"

definition model_size_value :: ustring where
  "model_size_value = ustr ''3B '' @ [0x53C3, 0x6578]"

fun device_str :: "device \<Rightarrow> ustring" where
  "device_str Cuda = ustr ''cuda''"
| "device_str Cpu = ustr ''cpu''"

subsection \<open>\<open>load_model\<close> (lines 37 to 51)\<close>

definition load_model_body :: "env \<Rightarrow> (model \<times> processor \<times> device) prog" where
  "load_model_body E =
     bindE (call E CudaIsAvailable (Inr (cuda_is_available E))) (\<lambda>cuda.
     let device = (if cuda then Cuda else Cpu) in
     bindE (render E (StSpinner loading_text)) (\<lambda>_.
     bindE (call E (ModelFromPretrained model_id BFloat16 device)
              (model_from_pretrained E model_id BFloat16 device)) (\<lambda>model.
     bindE (call E (ProcessorFromPretrained model_id)
              (processor_from_pretrained E model_id)) (\<lambda>processor.
     returnE (model, processor, device)))))"

text \<open>
  \<open>@st.cache_resource\<close>: a stored result is returned without running the body; a result
  is stored only when the body returns.
\<close>

definition load_model :: "env \<Rightarrow> (model \<times> processor \<times> device) prog" where
  "load_model E w =
     (case resource_cache w of
        Some r \<Rightarrow> (Inr r, w)
      | None \<Rightarrow>
          (case load_model_body E w of
             (Inl e, w') \<Rightarrow> (Inl e, w')
           | (Inr r, w') \<Rightarrow> (Inr r, w'\<lparr>resource_cache := Some r\<rparr>)))"

subsection \<open>\<open>inference\<close> (lines 54 to 80)\<close>

text \<open>
  The body of the \<open>try\<close>.  The processor argument is whatever the session holds, so it may
  be \<open>None\<close>, and calling \<open>None\<close> raises \<open>TypeError\<close>.  \<open>with torch.no_grad()\<close> is the
  gradient mode \<open>False\<close> of the one call it encloses.  \<open>output[0]\<close> raises \<open>IndexError\<close> on
  an empty batch.
\<close>

definition none_not_callable :: exn where
  "none_not_callable =
     Exn TypeError ([0x27] @ ustr ''NoneType'' @ [0x27] @ ustr '' object is not callable'')"

definition index_out_of_range :: exn where
  "index_out_of_range =
     Exn IndexError (ustr ''index 0 is out of bounds for dimension 0 with size 0'')"

definition inference_try ::
  "env \<Rightarrow> model \<Rightarrow> processor option \<Rightarrow> pil_image \<Rightarrow> ustring \<Rightarrow> device \<Rightarrow> (ustring \<times> real) prog"
where
  "inference_try E model processor img input_text device =
     (case processor of
        None \<Rightarrow> (\<lambda>w. (Inl none_not_callable, w))
      | Some p \<Rightarrow>
          bindE (call E (ProcessorCall input_text img (ustr ''longest'') True (ustr ''pt''))
                   (p_call p input_text img (ustr ''longest'') True (ustr ''pt''))) (\<lambda>inputs0.
          bindE (call E (ToDevice inputs0 device) (to_device E inputs0 device)) (\<lambda>inputs1.
          bindE (call E (ToDtype inputs1 (m_dtype model))
                   (to_dtype E inputs1 (m_dtype model))) (\<lambda>inputs.
          bindE (time_time E) (\<lambda>start_time.
          bindE (call E (Generate inputs 496 False)
                   (m_generate model inputs 496 False)) (\<lambda>out.
          bindE (time_time E) (\<lambda>end_time.
          let inference_time = end_time - start_time in
          (case out of
             [] \<Rightarrow> (\<lambda>w. (Inl index_out_of_range, w))
           | out0 # _ \<Rightarrow>
               bindE (call E (Decode out0 True) (p_decode p out0 True)) (\<lambda>result.
               returnE (result, inference_time))))))))))"

text \<open>
  The function itself: \<open>except Exception as e\<close> turns any raise of the body into the pair
  of a message and \<open>None\<close>, so \<open>inference\<close> always returns a pair.
\<close>

definition inference ::
  "env \<Rightarrow> model \<Rightarrow> processor option \<Rightarrow> pil_image \<Rightarrow> ustring \<Rightarrow> device \<Rightarrow>
   world \<Rightarrow> (ustring \<times> real option) \<times> world"
where
  "inference E model processor img input_text device w =
     (case inference_try E model processor img input_text device
             (w\<lparr>inference_calls := Suc (inference_calls w)\<rparr>) of
        (Inr (result, inference_time), w') \<Rightarrow> ((result, Some inference_time), w')
      | (Inl e, w') \<Rightarrow> ((inference_error_prefix @ exn_str e, None), w'))"

subsection \<open>\<open>load_image_from_url\<close> (lines 83 to 92)\<close>

text \<open>
  \<open>Response.raise_for_status()\<close> of the requests library raises \<open>HTTPError\<close> exactly for
  the client-error and server-error classes, \<open>400 \<le> status_code < 600\<close>, and returns
  for every other status.
\<close>

definition raise_for_status :: "response \<Rightarrow> unit prog" where
  "raise_for_status r w =
     (if 400 \<le> status_code r \<and> status_code r < 600
      then (Inl (Exn HTTPError (error_text r)), w) else (Inr (), w))"

text \<open>
  \<open>Image.convert(mode)\<close> of PIL returns a new image of the requested mode and the same
  size; how the raster is recomputed is the library's business.
\<close>

definition convert :: "env \<Rightarrow> pil_image \<Rightarrow> color_mode \<Rightarrow> pil_image prog" where
  "convert E im m =
     bindE (call E (Convert im m) (convert_data E im m)) (\<lambda>d.
     returnE \<lparr>im_mode = m, im_size = im_size im, im_data = d\<rparr>)"

text \<open>\<open>Image.open(source).convert("RGB")\<close>, the expression all three sources share.\<close>

definition open_rgb :: "env \<Rightarrow> bytes \<Rightarrow> pil_image prog" where
  "open_rgb E b = bindE (call E (ImageOpen b) (image_open E b)) (\<lambda>im. convert E im RGB)"

text \<open>The body of the \<open>try\<close>.\<close>

definition fetch_image :: "env \<Rightarrow> ustring \<Rightarrow> pil_image prog" where
  "fetch_image E url =
     bindE (call E (RequestsGet url True 10) (requests_get E url True 10)) (\<lambda>response.
     bindE (raise_for_status response) (\<lambda>_.
     bindE (call E ReadContent (content response)) (\<lambda>body.
     open_rgb E body)))"

definition load_image_from_url :: "env \<Rightarrow> ustring \<Rightarrow> world \<Rightarrow> pil_image option \<times> world" where
  "load_image_from_url E url w =
     (case fetch_image E url w of
        (Inr img, w') \<Rightarrow> (Some img, w')
      | (Inl e, w') \<Rightarrow> (None, perform E (StError (url_error_prefix @ exn_str e)) w'))"

subsection \<open>\<open>main\<close> (lines 95 to 195)\<close>

text \<open>
  What the widgets return in one rerun.  \<open>st.radio\<close> returns the selected one of its
  options; the uploader and the camera return a file or \<open>None\<close>; a button returns whether
  it was clicked.  A widget the run never renders is never read.
\<close>

datatype radio_index = First | Second | Third

fun radio_nat :: "radio_index \<Rightarrow> nat" where
  "radio_nat First = 0"
| "radio_nat Second = 1"
| "radio_nat Third = 2"

definition st_radio :: "ustring list \<Rightarrow> radio_index \<Rightarrow> ustring" where
  "st_radio options c = options ! radio_nat c"

record widgets =
  load_clicked :: bool
  image_source_choice :: radio_index
  uploaded_file :: "bytes option"
  url :: ustring
  fetch_clicked :: bool
  picture :: "bytes option"
  input_text :: ustring
  ask_clicked :: bool

text \<open>The sidebar, lines 100 to 110.\<close>

definition store_session :: "model \<times> processor \<times> device \<Rightarrow> unit prog" where
  "store_session r w =
     (case r of (model, processor, device) \<Rightarrow>
        (Inr (), w\<lparr>session := (session w)\<lparr>ss_model := Some model,
                     ss_processor := Some processor, ss_device := device\<rparr>\<rparr>))"

definition sidebar :: "env \<Rightarrow> widgets \<Rightarrow> unit prog" where
  "sidebar E W =
     bindE get_session (\<lambda>s.
     bindE (render E (StInfo (device_prefix @ device_str (ss_device s)))) (\<lambda>_.
     bindE (render E (StButton load_button)) (\<lambda>_.
     bindE (if load_clicked W
            then bindE (load_model E) (\<lambda>r.
                 bindE (store_session r) (\<lambda>_.
                 render E (StSuccess loaded_text)))
            else returnE ()) (\<lambda>_.
     bindE get_session (\<lambda>s.
     case ss_model s of
       None \<Rightarrow> render E (StWarning load_first_text)
     | Some _ \<Rightarrow> returnE ())))))"

text \<open>
  The image column, lines 115 to 148; its value is the local variable \<open>image\<close>.  The two
  \<open>Image.open(...).convert("RGB")\<close> outside \<open>load_image_from_url\<close> are not inside any
  \<open>try\<close>.
\<close>

definition open_selected :: "env \<Rightarrow> bytes option \<Rightarrow> pil_image option prog" where
  "open_selected E file =
     (case file of
        None \<Rightarrow> returnE None
      | Some b \<Rightarrow> bindE (open_rgb E b) (\<lambda>im. returnE (Some im)))"

definition image_column :: "env \<Rightarrow> widgets \<Rightarrow> pil_image option prog" where
  "image_column E W =
     bindE (render E (StRadio image_source_options)) (\<lambda>_.
     let image_source = st_radio image_source_options (image_source_choice W) in
     bindE (if image_source = option_upload then
              bindE (render E StFileUploader) (\<lambda>_. open_selected E (uploaded_file W))
            else if image_source = option_url then
              bindE (render E StTextInput) (\<lambda>_.
              if url W \<noteq> [] then
                bindE (render E (StButton fetch_button)) (\<lambda>_.
                if fetch_clicked W
                then no_raise (load_image_from_url E (url W))
                else returnE None)
              else returnE None)
            else if image_source = camera_branch_literal then
              bindE (render E StCameraInput) (\<lambda>_. open_selected E (picture W))
            else returnE None) (\<lambda>img.
     bindE (case img of None \<Rightarrow> returnE () | Some im \<Rightarrow> render E (StImage im)) (\<lambda>_.
     returnE img)))"

text \<open>
  The question column, lines 151 to 195.  \<open>if inference_time:\<close> is false for \<open>None\<close> and
  for \<open>0.0\<close>.
\<close>

definition show_result :: "env \<Rightarrow> ustring \<times> real option \<Rightarrow> unit prog" where
  "show_result E r =
     (case r of (result, inference_time) \<Rightarrow>
        bindE (render E (StResultBox result)) (\<lambda>_.
        bindE (case inference_time of
                 None \<Rightarrow> returnE ()
               | Some t \<Rightarrow> if t \<noteq> 0 then render E (StMetricTime t) else returnE ()) (\<lambda>_.
        bindE (render E (StMetric model_size_label model_size_value)) (\<lambda>_.
        render E (StCode result)))))"

definition ask_ai :: "env \<Rightarrow> widgets \<Rightarrow> pil_image option \<Rightarrow> unit prog" where
  "ask_ai E W img =
     bindE get_session (\<lambda>s.
     case ss_model s of
       None \<Rightarrow> render E (StError no_model_text)
     | Some model \<Rightarrow>
         (case img of
            None \<Rightarrow> render E (StError no_image_text)
          | Some im \<Rightarrow>
              if strip (input_text W) = [] then render E (StError no_question_text)
              else
                bindE (render E (StSpinner thinking_text)) (\<lambda>_.
                bindE (no_raise (inference E model (ss_processor s) im (input_text W)
                                (ss_device s))) (\<lambda>r.
                show_result E r))))"

definition question_column :: "env \<Rightarrow> widgets \<Rightarrow> pil_image option \<Rightarrow> unit prog" where
  "question_column E W img =
     bindE (render E StTextArea) (\<lambda>_.
     bindE (render E (StButton ask_button)) (\<lambda>_.
     if ask_clicked W then ask_ai E W img else returnE ()))"

definition main :: "env \<Rightarrow> widgets \<Rightarrow> unit prog" where
  "main E W =
     bindE (sidebar E W) (\<lambda>_.
     bindE (image_column E W) (\<lambda>img.
     question_column E W img))"

text \<open>A fresh browser session before its first run: lines 30 to 35 on an empty state.\<close>

definition start_world :: "env \<Rightarrow> world" where
  "start_world E =
     \<lparr>session = init_session_state E None, resource_cache = None, clock = 0, trace = [],
      inference_calls = 0\<rparr>"

subsection \<open>Observations on a trace\<close>


text \<open>The \<open>generate\<close> calls: inputs, \<open>max_length\<close> and gradient mode.\<close>

fun generate_calls :: "event list \<Rightarrow> (tensors \<times> nat \<times> bool) list" where
  "generate_calls [] = []"
| "generate_calls (Generate inputs max_length grad # evs) =
     (inputs, max_length, grad) # generate_calls evs"
| "generate_calls (ev # evs) = generate_calls evs"

text \<open>The \<open>decode\<close> calls: token sequence and \<open>skip_special_tokens\<close>.\<close>

fun decode_calls :: "event list \<Rightarrow> (token list \<times> bool) list" where
  "decode_calls [] = []"
| "decode_calls (Decode ids skip # evs) = (ids, skip) # decode_calls evs"
| "decode_calls (ev # evs) = decode_calls evs"

subsection \<open>A concrete environment for evaluating the program\<close>

text \<open>
  A stand-in for the libraries, small enough to run the definitions on: the decoder knows
  one file (an RGBA raster of one pixel), the model answers every question with the
  tokens of "red", and generation takes two seconds while every other call takes a
  different, nonzero time.
\<close>

definition demo_bytes :: bytes where
  "demo_bytes = [0x89, 0x50, 0x4E, 0x47]"

definition demo_rgba :: pil_image where
  "demo_rgba = \<lparr>im_mode = RGBA, im_size = (1, 1), im_data = [255, 0, 0, 255]\<rparr>"

definition demo_rgb :: pil_image where
  "demo_rgb = \<lparr>im_mode = RGB, im_size = (1, 1), im_data = [255, 0, 0]\<rparr>"

definition not_an_image :: exn where
  "not_an_image = Exn UnidentifiedImageError (ustr ''cannot identify image file'')"

definition demo_model :: model where
  "demo_model =
     \<lparr>m_dtype = BFloat16,
      m_generate = (\<lambda>inputs max_length grad. Inr [take max_length [0x72, 0x65, 0x64]])\<rparr>"

definition demo_processor :: processor where
  "demo_processor =
     \<lparr>p_call = (\<lambda>text images padding rgb rt. Inr (Tensors (length text))),
      p_decode = (\<lambda>ids skip. Inr ids)\<rparr>"

fun demo_duration :: "event \<Rightarrow> real" where
  "demo_duration (Generate inputs max_length grad) = 2"
| "demo_duration (ProcessorCall text images padding rgb rt) = 1 / 2"
| "demo_duration (ToDevice t d) = 1 / 4"
| "demo_duration (ToDtype t d) = 1 / 8"
| "demo_duration (Decode ids skip) = 1 / 16"
| "demo_duration TimeTime = 1 / 1000"
| "demo_duration ev = 1 / 100"

definition demo_response :: response where
  "demo_response = \<lparr>status_code = 200, error_text = [], content = Inr demo_bytes\<rparr>"

definition demo_env :: env where
  "demo_env =
     \<lparr>cuda_is_available = False,
      model_from_pretrained = (\<lambda>name dt dev. Inr demo_model),
      processor_from_pretrained = (\<lambda>name. Inr demo_processor),
      requests_get = (\<lambda>url stream timeout. Inr demo_response),
      image_open = (\<lambda>b. if b = demo_bytes then Inr demo_rgba else Inl not_an_image),
      convert_data = (\<lambda>im m. Inr (take (length (getbands m)) (im_data im))),
      to_device = (\<lambda>t d. Inr t),
      to_dtype = (\<lambda>t d. Inr t),
      duration = demo_duration\<rparr>"

definition demo_url :: ustring where
  "demo_url = ustr ''https://example.com/image.jpg''"

definition demo_question :: ustring where
  "demo_question = ustr ''  What color is this? ''"

text \<open>A session in which the model has been loaded.\<close>

definition loaded_world :: world where
  "loaded_world =
     \<lparr>session = \<lparr>ss_model = Some demo_model, ss_processor = Some demo_processor,
                  ss_device = Cpu\<rparr>,
      resource_cache = Some (demo_model, demo_processor, Cpu), clock = 100, trace = [],
      inference_calls = 0\<rparr>"

text \<open>The user picks the third source and the camera holds a picture.\<close>

definition camera_widgets :: widgets where
  "camera_widgets =
     \<lparr>load_clicked = False, image_source_choice = Third, uploaded_file = None, url = [],
      fetch_clicked = False, picture = Some demo_bytes, input_text = demo_question,
      ask_clicked = True\<rparr>"

text \<open>The user uploads the same file and asks.\<close>

definition upload_widgets :: widgets where
  "upload_widgets =
     \<lparr>load_clicked = False, image_source_choice = First, uploaded_file = Some demo_bytes,
      url = [], fetch_clicked = False, picture = None, input_text = demo_question,
      ask_clicked = True\<rparr>"

text \<open>Servers and libraries that fail.\<close>

definition response_404 :: response where
  "response_404 =
     \<lparr>status_code = 404, error_text = ustr ''404 Client Error: Not Found'',
      content = Inr []\<rparr>"

definition response_300 :: response where
  "response_300 =
     \<lparr>status_code = 300, error_text = ustr ''300 Multiple Choices'',
      content = Inr demo_bytes\<rparr>"

definition response_text :: response where
  "response_text = \<lparr>status_code = 200, error_text = [], content = Inr (ustr ''<html>'')\<rparr>"

definition env_404 :: env where
  "env_404 = demo_env\<lparr>requests_get := (\<lambda>url stream timeout. Inr response_404)\<rparr>"

definition env_300 :: env where
  "env_300 = demo_env\<lparr>requests_get := (\<lambda>url stream timeout. Inr response_300)\<rparr>"

definition env_not_image :: env where
  "env_not_image = demo_env\<lparr>requests_get := (\<lambda>url stream timeout. Inr response_text)\<rparr>"

definition timed_out :: exn where
  "timed_out = Exn Timeout (ustr ''Read timed out. (read timeout=10)'')"

definition env_timeout :: env where
  "env_timeout = demo_env\<lparr>requests_get := (\<lambda>url stream timeout. Inl timed_out)\<rparr>"

definition out_of_memory :: exn where
  "out_of_memory = Exn OutOfMemoryError (ustr ''CUDA out of memory'')"

definition oom_model :: model where
  "oom_model = demo_model\<lparr>m_generate := (\<lambda>inputs max_length grad. Inl out_of_memory)\<rparr>"

definition weights_missing :: exn where
  "weights_missing = Exn OSError (ustr ''model weights not found'')"

definition env_no_processor :: env where
  "env_no_processor =
     demo_env\<lparr>processor_from_pretrained := (\<lambda>name. Inl weights_missing)\<rparr>"

text \<open>The user has an image selected and a loaded model, and asks a blank question.\<close>

definition blank_widgets :: widgets where
  "blank_widgets = upload_widgets\<lparr>input_text := [0x20, 0x09, 0x3000]\<rparr>"

text \<open>The user clicks the load button.\<close>

definition load_widgets :: widgets where
  "load_widgets = upload_widgets\<lparr>load_clicked := True\<rparr>"

section \<open>Properties\<close>

subsection \<open>Running programs step by step\<close>

lemma perform_fields [simp]:
  "session (perform E ev w) = session w"
  "resource_cache (perform E ev w) = resource_cache w"
  "inference_calls (perform E ev w) = inference_calls w"
  "trace (perform E ev w) = trace w @ [ev]"
  "clock (perform E ev w) = clock w + duration E ev"
  by (simp_all add: perform_def)

lemma bindE_render [simp]: "bindE (render E ev) f w = f () (perform E ev w)"
  by (simp add: bindE_def render_def)

lemma bindE_returnE [simp]: "bindE (returnE x) f w = f x w"
  by (simp add: bindE_def returnE_def)

lemma bindE_call_Inr [simp]: "bindE (call E ev (Inr x)) f w = f x (perform E ev w)"
  by (simp add: bindE_def call_def)

lemma bindE_call_Inl [simp]: "bindE (call E ev (Inl e)) f w = (Inl e, perform E ev w)"
  by (simp add: bindE_def call_def)

lemma bindE_time_time [simp]: "bindE (time_time E) f w = f (clock w) (perform E TimeTime w)"
  by (simp add: bindE_def time_time_def)

lemma bindE_no_raise [simp]: "bindE (no_raise m) f w = (case m w of (x, w') \<Rightarrow> f x w')"
  by (simp add: bindE_def no_raise_def split: prod.splits)

lemma bindE_call:
  "bindE (call E ev r) f w =
     (case r of Inl e \<Rightarrow> (Inl e, perform E ev w) | Inr x \<Rightarrow> f x (perform E ev w))"
  by (cases r) simp_all

lemma snd_render [simp]: "snd (render E ev w) = perform E ev w"
  by (simp add: render_def)

lemma bindE_get_session [simp]: "bindE get_session f w = f (session w) w"
  by (simp add: bindE_def get_session_def)

text \<open>The definitions a concrete run unfolds.\<close>

lemmas demo_defs = demo_env_def demo_model_def demo_processor_def demo_bytes_def
  demo_rgba_def demo_rgb_def demo_response_def demo_url_def demo_question_def
  loaded_world_def upload_widgets_def camera_widgets_def blank_widgets_def not_an_image_def

lemmas fail_defs = oom_model_def out_of_memory_def env_404_def env_300_def
  env_not_image_def env_timeout_def timed_out_def response_404_def response_300_def
  response_text_def env_no_processor_def weights_missing_def load_widgets_def
  start_world_def init_session_state_def

lemmas literal_defs = option_upload_def option_url_def option_camera_def
  image_source_options_def camera_branch_literal_def st_radio_def ustr_def

lemmas run_defs = main_def sidebar_def image_column_def question_column_def ask_ai_def
  open_selected_def open_rgb_def convert_def show_result_def inference_def
  inference_try_def load_image_from_url_def fetch_image_def raise_for_status_def
  load_model_def load_model_body_def store_session_def no_raise_def returnE_def
  bindE_def call_def render_def get_session_def time_time_def

subsection \<open>Only \<open>inference\<close> counts its calls\<close>

lemma bindE_calls:
  assumes "\<And>w. inference_calls (snd (m w)) = inference_calls w"
    and "\<And>x w. inference_calls (snd (g x w)) = inference_calls w"
  shows "inference_calls (snd (bindE m g w)) = inference_calls w"
proof (cases "m w")
  case (Pair r w')
  have "inference_calls w' = inference_calls w" using assms(1) [of w] Pair by simp
  then show ?thesis using Pair assms(2) by (cases r) (simp_all add: bindE_def)
qed

lemma leaf_calls [simp]:
  "inference_calls (snd (render E ev w)) = inference_calls w"
  "inference_calls (snd (call E ev r w)) = inference_calls w"
  "inference_calls (snd (returnE x w)) = inference_calls w"
  "inference_calls (snd (raise_for_status rsp w)) = inference_calls w"
  "inference_calls (snd (store_session s w)) = inference_calls w"
  "inference_calls (snd (get_session w)) = inference_calls w"
  by (simp_all add: render_def call_def returnE_def raise_for_status_def store_session_def
      get_session_def split: prod.splits)

lemma no_raise_calls [simp]: "inference_calls (snd (no_raise m w)) = inference_calls (snd (m w))"
  by (simp add: no_raise_def split: prod.splits)

lemma open_rgb_calls [simp]: "inference_calls (snd (open_rgb E b w)) = inference_calls w"
  by (simp add: open_rgb_def convert_def bindE_calls)

lemma open_selected_calls [simp]:
  "inference_calls (snd (open_selected E f w)) = inference_calls w"
  by (cases f) (simp_all add: open_selected_def bindE_calls)

lemma fetch_image_calls [simp]: "inference_calls (snd (fetch_image E u w)) = inference_calls w"
  by (simp add: fetch_image_def bindE_calls)

lemma load_image_from_url_calls [simp]:
  "inference_calls (snd (load_image_from_url E u w)) = inference_calls w"
proof (cases "fetch_image E u w")
  case (Pair r w')
  then have "inference_calls w' = inference_calls w"
    using fetch_image_calls [of E u w] by simp
  then show ?thesis using Pair by (cases r) (simp_all add: load_image_from_url_def)
qed

lemma load_model_body_calls [simp]:
  "inference_calls (snd (load_model_body E w)) = inference_calls w"
  by (simp add: load_model_body_def Let_def bindE_calls del: bindE_call_Inr bindE_render)

lemma load_model_calls [simp]: "inference_calls (snd (load_model E w)) = inference_calls w"
proof (cases "load_model_body E w")
  case (Pair r w')
  then have "inference_calls w' = inference_calls w"
    using load_model_body_calls [of E w] by simp
  then show ?thesis using Pair
    by (cases r; cases "resource_cache w") (simp_all add: load_model_def)
qed

lemma sidebar_calls [simp]: "inference_calls (snd (sidebar E W w)) = inference_calls w"
  by (simp add: sidebar_def bindE_calls split: option.splits
      del: bindE_render bindE_get_session)

lemma image_column_calls [simp]:
  "inference_calls (snd (image_column E W w)) = inference_calls w"
  by (simp add: image_column_def Let_def bindE_calls split: option.splits prod.splits
      del: bindE_render)

text \<open>When both columns before it return, \<open>main\<close> ends in the question column.\<close>

lemma main_after_columns:
  assumes "sidebar E W w = (Inr (), w1)" and "image_column E W w1 = (Inr img, w2)"
  shows "main E W w = question_column E W img w2"
  using assms by (simp add: main_def bindE_def)

lemma columns_calls:
  assumes "sidebar E W w = (Inr (), w1)" and "image_column E W w1 = (Inr img, w2)"
  shows "inference_calls w2 = inference_calls w"
  using sidebar_calls [of E W w] image_column_calls [of E W w1] assms by simp

lemma ask_ai_blocked:
  assumes "ss_model (session w) = None \<or> img = None \<or> strip (input_text W) = []"
  shows "inference_calls (snd (ask_ai E W img w)) = inference_calls w"
  using assms by (auto simp: ask_ai_def split: option.splits)

subsection \<open>C3: the validation gate\<close>

text \<open>
  Claim C3.  In a run of \<open>main\<close> that reaches the question column, if the session holds
  no model, or no image has been selected, or the question is empty or consists of
  whitespace only, then \<open>inference\<close> is not entered: the count of its calls after the
  run is the count before it (0 calls made by the run), whether or not the ask button was
  clicked.
\<close>

theorem gate_blocks_inference:
  assumes "sidebar E W w = (Inr (), w1)"
    and "image_column E W w1 = (Inr img, w2)"
    and "ss_model (session w2) = None \<or> img = None \<or> strip (input_text W) = []"
  shows "inference_calls (snd (main E W w)) = inference_calls w"
proof -
  let ?w3 = "perform E (StButton ask_button) (perform E StTextArea w2)"
  have "main E W w = (if ask_clicked W then ask_ai E W img ?w3 else returnE () ?w3)"
    using assms(1,2) by (simp add: main_after_columns question_column_def)
  moreover have "inference_calls (snd (ask_ai E W img ?w3)) = inference_calls ?w3"
    using assms(3) by (intro ask_ai_blocked) simp
  ultimately have "inference_calls (snd (main E W w)) = inference_calls w2"
    by simp
  then show ?thesis using columns_calls [OF assms(1,2)] by simp
qed

text \<open>
  A run with a loaded model, an uploaded image and a question of a space, a tab and an
  ideographic space: the ask button is clicked and nothing is inferred.
\<close>

theorem gate_blocks_inference_witness:
  "ask_clicked blank_widgets \<and> strip (input_text blank_widgets) = [] \<and>
   inference_calls (snd (main demo_env blank_widgets loaded_world)) = 0"
proof -
  let ?w1 = "snd (sidebar demo_env blank_widgets loaded_world)"
  let ?w2 = "snd (image_column demo_env blank_widgets ?w1)"
  have "fst (sidebar demo_env blank_widgets loaded_world) = Inr ()"
    by (simp add: run_defs demo_defs)
  then have h1: "sidebar demo_env blank_widgets loaded_world = (Inr (), ?w1)"
    by (metis prod.collapse)
  have "fst (image_column demo_env blank_widgets ?w1) = Inr (Some demo_rgb)"
    by (simp add: run_defs demo_defs literal_defs)
  then have h2: "image_column demo_env blank_widgets ?w1 = (Inr (Some demo_rgb), ?w2)"
    by (metis prod.collapse)
  have h3: "strip (input_text blank_widgets) = []"
    by (simp add: demo_defs strip_def isspace_def)
  have "inference_calls (snd (main demo_env blank_widgets loaded_world)) =
        inference_calls loaded_world"
    using gate_blocks_inference [OF h1 h2] h3 by simp
  then show ?thesis using h3 by (simp add: demo_defs)
qed

subsection \<open>The steps of \<open>inference\<close>\<close>

text \<open>A run of \<open>inference\<close> in which every step returns: its value and its calls.\<close>

lemma inference_success:
  assumes "p_call p question im (ustr ''longest'') True (ustr ''pt'') = Inr i0"
    and "to_device E i0 dev = Inr i1"
    and "to_dtype E i1 (m_dtype m) = Inr i"
    and "m_generate m i 496 False = Inr (out0 # rest)"
    and "p_decode p out0 True = Inr result"
  shows "fst (inference E m (Some p) im question dev w) =
           (result, Some (duration E TimeTime + duration E (Generate i 496 False)))"
    and "trace (snd (inference E m (Some p) im question dev w)) = trace w @
           [ProcessorCall question im (ustr ''longest'') True (ustr ''pt''), ToDevice i0 dev,
            ToDtype i1 (m_dtype m), TimeTime, Generate i 496 False, TimeTime,
            Decode out0 True]"
  using assms by (simp_all add: inference_def inference_try_def Let_def returnE_def)

lemma generate_calls_append:
  "generate_calls (xs @ ys) = generate_calls xs @ generate_calls ys"
  by (induction xs rule: generate_calls.induct) simp_all

lemma decode_calls_append:
  "decode_calls (xs @ ys) = decode_calls xs @ decode_calls ys"
  by (induction xs rule: decode_calls.induct) simp_all


subsection \<open>C4: \<open>inference\<close> catches what its steps raise\<close>

text \<open>
  Claim C4.  Whichever step of \<open>inference\<close> raises (the processor call that encodes
  question and image, the transfer to the device, the cast to the model's dtype, the
  generation, or the decoding, the steps before it having returned), \<open>inference\<close>
  returns a pair whose first component is the error prefix followed by the text of the
  exception and whose latency component is \<open>None\<close>.  That nothing propagates is in the
  type of \<open>inference\<close>: it returns a pair for every input.
\<close>

theorem inference_catches_every_step:
  assumes "p_call p question im (ustr ''longest'') True (ustr ''pt'') = Inl e
    \<or> (\<exists>i0. p_call p question im (ustr ''longest'') True (ustr ''pt'') = Inr i0 \<and>
         (to_device E i0 dev = Inl e
          \<or> (\<exists>i1. to_device E i0 dev = Inr i1 \<and>
               (to_dtype E i1 (m_dtype m) = Inl e
                \<or> (\<exists>i. to_dtype E i1 (m_dtype m) = Inr i \<and>
                     (m_generate m i 496 False = Inl e
                      \<or> (\<exists>out0 rest. m_generate m i 496 False = Inr (out0 # rest) \<and>
                           p_decode p out0 True = Inl e)))))))"
  shows "fst (inference E m (Some p) im question dev w) =
           (inference_error_prefix @ exn_str e, None)"
  using assms by (auto simp: inference_def inference_try_def Let_def)

text \<open>Generation runs out of memory after encoding and transfer have succeeded.\<close>

theorem inference_catches_every_step_witness:
  "m_generate oom_model (Tensors 22) 496 False = Inl out_of_memory \<and>
   fst (inference demo_env oom_model (Some demo_processor) demo_rgb demo_question Cpu
          loaded_world) = (inference_error_prefix @ exn_str out_of_memory, None)"
  using inference_catches_every_step [where E = demo_env and m = oom_model
      and p = demo_processor and im = demo_rgb and question = demo_question and dev = Cpu
      and e = out_of_memory and w = loaded_world]
  by (simp add: demo_defs fail_defs ustr_def)

subsection \<open>C6: what the latency measures\<close>

text \<open>
  Claim C6.  When every step of \<open>inference\<close> returns, the latency it reports is the time
  that passes between its two clock readings, and the only call between the two readings
  is the model's \<open>generate\<close>: the latency is the duration of that call (and of the first
  reading returning), whatever the durations of the processor call, of the two transfers
  and of the decoding, which lie before the first reading and after the second.
\<close>

theorem latency_spans_generation_only:
  assumes "p_call p question im (ustr ''longest'') True (ustr ''pt'') = Inr i0"
    and "to_device E i0 dev = Inr i1"
    and "to_dtype E i1 (m_dtype m) = Inr i"
    and "m_generate m i 496 False = Inr (out0 # rest)"
    and "p_decode p out0 True = Inr result"
  shows "snd (fst (inference E m (Some p) im question dev w)) =
           Some (duration E TimeTime + duration E (Generate i 496 False)) \<and>
         trace (snd (inference E m (Some p) im question dev w)) = trace w @
           [ProcessorCall question im (ustr ''longest'') True (ustr ''pt''), ToDevice i0 dev,
            ToDtype i1 (m_dtype m), TimeTime, Generate i 496 False, TimeTime,
            Decode out0 True]"
  using inference_success [OF assms] by simp

text \<open>
  Encoding takes half a second and decoding a sixteenth; the latency is the two seconds
  of generation and the millisecond of the clock reading.
\<close>

theorem latency_spans_generation_only_witness:
  "duration demo_env
     (ProcessorCall demo_question demo_rgb (ustr ''longest'') True (ustr ''pt'')) = 1 / 2 \<and>
   duration demo_env (Decode [0x72, 0x65, 0x64] True) = 1 / 16 \<and>
   snd (fst (inference demo_env demo_model (Some demo_processor) demo_rgb demo_question Cpu
          loaded_world)) = Some (2001 / 1000)"
  using latency_spans_generation_only [where E = demo_env and m = demo_model
      and p = demo_processor and im = demo_rgb and question = demo_question and dev = Cpu
      and w = loaded_world and ?i0.0 = "Tensors 22" and ?i1.0 = "Tensors 22"
      and i = "Tensors 22" and ?out0.0 = "[0x72, 0x65, 0x64]" and rest = "[]"
      and result = "[0x72, 0x65, 0x64]"]
  by (simp add: demo_defs ustr_def)

subsection \<open>C9: how generation and decoding are called\<close>

text \<open>
  Claim C9.  Once the inputs are encoded and transferred, \<open>inference\<close> calls the model's
  \<open>generate\<close> exactly once, with \<open>max_length = 496\<close> and with gradient tracking off; and
  when generation returns a batch, it calls \<open>decode\<close> exactly once, on the first sequence
  of the batch, with \<open>skip_special_tokens = True\<close>, and the decoded text is the answer.
  What \<open>max_length\<close> and \<open>skip_special_tokens\<close> mean inside the library (a cap that an
  end-of-sequence token may undercut; control tokens dropped) is the library's contract.
\<close>

theorem generation_capped_no_grad_decoded:
  assumes "p_call p question im (ustr ''longest'') True (ustr ''pt'') = Inr i0"
    and "to_device E i0 dev = Inr i1"
    and "to_dtype E i1 (m_dtype m) = Inr i"
  shows "generate_calls (trace (snd (inference E m (Some p) im question dev w))) =
           generate_calls (trace w) @ [(i, 496, False)] \<and>
         (\<forall>out0 rest. m_generate m i 496 False = Inr (out0 # rest) \<longrightarrow>
            decode_calls (trace (snd (inference E m (Some p) im question dev w))) =
              decode_calls (trace w) @ [(out0, True)] \<and>
            (\<forall>result. p_decode p out0 True = Inr result \<longrightarrow>
               fst (fst (inference E m (Some p) im question dev w)) = result))"
  using assms
  by (auto simp: inference_def inference_try_def Let_def returnE_def generate_calls_append
      decode_calls_append bindE_call split: sum.splits list.splits)

theorem generation_capped_no_grad_decoded_witness:
  "generate_calls (trace (snd (inference demo_env demo_model (Some demo_processor) demo_rgb
      demo_question Cpu loaded_world))) = [(Tensors 22, 496, False)] \<and>
   decode_calls (trace (snd (inference demo_env demo_model (Some demo_processor) demo_rgb
      demo_question Cpu loaded_world))) = [([0x72, 0x65, 0x64], True)] \<and>
   fst (fst (inference demo_env demo_model (Some demo_processor) demo_rgb
      demo_question Cpu loaded_world)) = [0x72, 0x65, 0x64]"
  using generation_capped_no_grad_decoded [where E = demo_env and m = demo_model
      and p = demo_processor and im = demo_rgb and question = demo_question and dev = Cpu
      and w = loaded_world and ?i0.0 = "Tensors 22" and ?i1.0 = "Tensors 22"
      and i = "Tensors 22"]
  by (simp add: demo_defs ustr_def)

subsection \<open>C10: the question reaches the processor untrimmed\<close>





subsection \<open>C5: a failed load leaves the session as it was\<close>

lemma load_model_failure:
  assumes "resource_cache w = None"
    and "model_from_pretrained E model_id BFloat16
           (if cuda_is_available E then Cuda else Cpu) = Inl e
       \<or> (\<exists>m. model_from_pretrained E model_id BFloat16
                  (if cuda_is_available E then Cuda else Cpu) = Inr m \<and>
               processor_from_pretrained E model_id = Inl e)"
  shows "fst (load_model E w) = Inl e"
    and "session (snd (load_model E w)) = session w"
    and "resource_cache (snd (load_model E w)) = None"
  using assms by (auto simp: load_model_def load_model_body_def Let_def)

text \<open>
  Claim C5.  The load button is clicked and nothing is cached.  If loading the model
  raises, or the model loads and loading the processor raises, then the exception leaves
  \<open>main\<close> uncaught (the framework shows an uncaught exception on the page), the session
  state after the run is the session state before it, and the resource cache is still
  empty: neither the model alone nor any other part of the triple has been stored.
\<close>

theorem failed_load_keeps_session:
  assumes "load_clicked W" and "resource_cache w = None"
    and "model_from_pretrained E model_id BFloat16
           (if cuda_is_available E then Cuda else Cpu) = Inl e
       \<or> (\<exists>m. model_from_pretrained E model_id BFloat16
                  (if cuda_is_available E then Cuda else Cpu) = Inr m \<and>
               processor_from_pretrained E model_id = Inl e)"
  shows "fst (main E W w) = Inl e \<and> session (snd (main E W w)) = session w \<and>
         resource_cache (snd (main E W w)) = None"
proof -
  let ?w2 = "perform E (StButton load_button)
               (perform E (StInfo (device_prefix @ device_str (ss_device (session w)))) w)"
  have c: "resource_cache ?w2 = None" using assms(2) by simp
  obtain r w' where lm: "load_model E ?w2 = (r, w')" by (cases "load_model E ?w2")
  have "r = Inl e" "session w' = session w" "resource_cache w' = None"
    using load_model_failure [OF c assms(3)] lm by simp_all
  then have "main E W w = (Inl e, w')"
    using assms(1) lm by (simp add: main_def sidebar_def bindE_def get_session_def render_def)
  then show ?thesis using \<open>session w' = session w\<close> \<open>resource_cache w' = None\<close> by simp
qed

text \<open>The model loads, the processor does not; the session still holds neither.\<close>

theorem failed_load_keeps_session_witness:
  "load_clicked load_widgets \<and>
   model_from_pretrained env_no_processor model_id BFloat16 Cpu = Inr demo_model \<and>
   processor_from_pretrained env_no_processor model_id = Inl weights_missing \<and>
   fst (main env_no_processor load_widgets (start_world env_no_processor)) =
     Inl weights_missing \<and>
   ss_model (session (snd (main env_no_processor load_widgets
     (start_world env_no_processor)))) = None \<and>
   ss_processor (session (snd (main env_no_processor load_widgets
     (start_world env_no_processor)))) = None"
  using failed_load_keeps_session [where E = env_no_processor and W = load_widgets
      and w = "start_world env_no_processor" and e = weights_missing]
  by (simp add: demo_defs fail_defs)

subsection \<open>C8: every acquired image is RGB\<close>

lemma convert_mode:
  assumes "convert E im m w = (Inr im', w')" shows "im_mode im' = m"
  using assms by (auto simp: convert_def bindE_call returnE_def split: sum.splits)

lemma open_rgb_mode:
  assumes "open_rgb E b w = (Inr im, w')" shows "im_mode im = RGB"
  using assms convert_mode
  by (auto simp: open_rgb_def bindE_call split: sum.splits)

lemma open_selected_mode:
  assumes "open_selected E f w = (Inr (Some im), w')" shows "im_mode im = RGB"
  using assms open_rgb_mode
  by (cases f) (auto simp: open_selected_def bindE_def returnE_def split: sum.splits prod.splits)

lemma fetch_image_mode:
  assumes "fetch_image E u w = (Inr im, w')" shows "im_mode im = RGB"
  using assms open_rgb_mode
  by (auto simp: fetch_image_def bindE_call raise_for_status_def bindE_def
      split: sum.splits prod.splits if_splits)

lemma load_image_from_url_mode:
  assumes "load_image_from_url E u w = (Some im, w')" shows "im_mode im = RGB"
  using assms fetch_image_mode
  by (auto simp: load_image_from_url_def split: sum.splits prod.splits)

text \<open>The value of the image column is the value of its source branch.\<close>

lemma shown_image_value:
  assumes "bindE src (\<lambda>img. bindE (case img of None \<Rightarrow> returnE () | Some im \<Rightarrow> render E (StImage im))
              (\<lambda>_. returnE img)) w = (Inr x, w')"
  shows "\<exists>w''. src w = (Inr x, w'')"
  using assms
  by (cases "src w") (auto simp: bindE_def returnE_def render_def split: sum.splits option.splits)

text \<open>
  Claim C8.  Whenever the image column of \<open>main\<close> ends with an image selected, whatever
  the source chosen, the bytes supplied and the mode the decoder found in them, that image
  has mode RGB and so exactly three channels.
\<close>

theorem acquired_image_is_rgb:
  assumes "image_column E W w = (Inr (Some im), w')"
  shows "im_mode im = RGB \<and> length (getbands (im_mode im)) = 3"
proof -
  have "im_mode im = RGB"
  proof (cases "image_source_choice W")
    case First
    with assms show ?thesis
      apply (simp add: image_column_def literal_defs)
      apply (drule shown_image_value)
      apply (auto dest: open_selected_mode)
      done
  next
    case Second
    with assms show ?thesis
      apply (simp add: image_column_def literal_defs)
      apply (drule shown_image_value)
      apply (auto simp: no_raise_def returnE_def split: if_splits prod.splits
          dest: load_image_from_url_mode)
      done
  next
    case Third
    with assms show ?thesis
      by (simp add: image_column_def literal_defs returnE_def)
  qed
  then show ?thesis by simp
qed

text \<open>An uploaded file that decodes as four-channel RGBA is held as RGB.\<close>

theorem acquired_image_is_rgb_witness:
  "im_mode demo_rgba = RGBA \<and> image_open demo_env demo_bytes = Inr demo_rgba \<and>
   fst (image_column demo_env upload_widgets loaded_world) = Inr (Some demo_rgb) \<and>
   im_mode demo_rgb = RGB \<and> length (getbands (im_mode demo_rgb)) = 3"
proof -
  have v: "fst (image_column demo_env upload_widgets loaded_world) = Inr (Some demo_rgb)"
    by (simp add: run_defs demo_defs literal_defs)
  then have "image_column demo_env upload_widgets loaded_world =
      (Inr (Some demo_rgb), snd (image_column demo_env upload_widgets loaded_world))"
    by (metis prod.collapse)
  from acquired_image_is_rgb [OF this] v show ?thesis
    by (simp add: demo_defs)
qed

subsection \<open>C1: the camera source\<close>

text \<open>
  Claim C1 says that a camera capture yields an RGB image as an upload does.  Evaluated on
  the run in which the user has picked the third source and the camera holds a picture
  that decodes (the same bytes give an RGB image through \<open>open_selected\<close>): the column's
  image is \<open>None\<close> and the only thing the column does is render the radio, so the camera
  widget is never rendered and its picture never opened.  The third branch compares the
  radio's value with a literal that carries a camera emoji and a space in front of the
  third option, which no option of the radio equals.
\<close>

theorem camera_capture_is_dropped:
  "image_source_choice camera_widgets = Third \<and> picture camera_widgets = Some demo_bytes \<and>
   fst (open_selected demo_env (picture camera_widgets) (start_world demo_env)) = Inr (Some demo_rgb) \<and>
   fst (image_column demo_env camera_widgets (start_world demo_env)) = Inr None \<and>
   trace (snd (image_column demo_env camera_widgets (start_world demo_env))) =
     [StRadio image_source_options]"
  by (simp add: run_defs demo_defs literal_defs fail_defs)

subsection \<open>C7: fetching from a URL\<close>

text \<open>
  Claim C7, as amended.  \<open>load_image_from_url\<close> first issues \<open>requests.get\<close> on the URL
  with \<open>stream=True\<close> and \<open>timeout=10\<close>.  If that call raises (a timeout, a connection
  failure), or the response has a status from 400 to 599, or the status is outside that
  range and reading the body raises, then no image is returned and the last thing done is
  an error message to the user: the fixed prefix followed by the text of the exception.
\<close>

theorem url_fetch_failure_reported:
  assumes "requests_get E u True 10 = Inl e
     \<or> (\<exists>r. requests_get E u True 10 = Inr r \<and>
           (if 400 \<le> status_code r \<and> status_code r < 600
            then e = Exn HTTPError (error_text r) else content r = Inl e))"
  shows "fst (load_image_from_url E u w) = None \<and>
         (\<exists>mid. trace (snd (load_image_from_url E u w)) =
            trace w @ [RequestsGet u True 10] @ mid @
              [StError (url_error_prefix @ exn_str e)])"
  using assms
  by (auto simp: load_image_from_url_def fetch_image_def raise_for_status_def bindE_def
      call_def split: if_splits)

text \<open>A server answering 404, and a server that lets the timeout pass.\<close>

theorem url_fetch_failure_reported_witness:
  "requests_get env_404 demo_url True 10 = Inr response_404 \<and> status_code response_404 = 404 \<and>
   requests_get env_timeout demo_url True 10 = Inl timed_out \<and>
   fst (load_image_from_url env_404 demo_url (start_world env_404)) = None \<and>
   fst (load_image_from_url env_timeout demo_url (start_world env_timeout)) = None \<and>
   last (trace (snd (load_image_from_url env_timeout demo_url (start_world env_timeout)))) =
     StError (url_error_prefix @ ustr ''Read timed out. (read timeout=10)'')"
  using url_fetch_failure_reported [where E = env_404 and u = demo_url
      and w = "start_world env_404" and e = "Exn HTTPError (error_text response_404)"]
    url_fetch_failure_reported [where E = env_timeout and u = demo_url
      and w = "start_world env_timeout" and e = timed_out]
  by (simp add: run_defs demo_defs fail_defs)

text \<open>
  Claim C7 as stated fails: a response with status 300, which is not a 2xx status, and a
  body that decodes is turned into an image, since \<open>raise_for_status\<close> only rejects 4xx
  and 5xx.
\<close>

theorem non_2xx_status_yields_image:
  "requests_get env_300 demo_url True 10 = Inr response_300 \<and>
   status_code response_300 = 300 \<and>
   fst (load_image_from_url env_300 demo_url (start_world env_300)) = Some demo_rgb"
  by (simp add: run_defs demo_defs fail_defs)

subsection \<open>C2: one handler for every failure of a fetch\<close>

text \<open>
  Claim C2, as amended.  Whichever collaborator fails during a fetch, the function returns
  \<open>None\<close> and the last thing it does is show one error message, the fixed prefix
  followed by the text of the exception: when \<open>requests.get\<close> raises (timeout,
  connection failure), when the status is from 400 to 599, when reading the body raises,
  when \<open>Image.open\<close> raises on the body (it is no image), and when the conversion to RGB
  raises.  Network failures and decode failures end in the same handler, and the kind of
  the failure is no part of the value returned.
\<close>

theorem url_failures_share_one_handler:
  assumes "requests_get E u True 10 = Inl e
     \<or> (\<exists>r. requests_get E u True 10 = Inr r \<and>
           (if 400 \<le> status_code r \<and> status_code r < 600
            then e = Exn HTTPError (error_text r)
            else content r = Inl e
               \<or> (\<exists>body. content r = Inr body \<and>
                     (image_open E body = Inl e
                      \<or> (\<exists>im. image_open E body = Inr im \<and>
                               convert_data E im RGB = Inl e)))))"
  shows "fst (load_image_from_url E u w) = None \<and>
         (\<exists>mid. trace (snd (load_image_from_url E u w)) =
            trace w @ [RequestsGet u True 10] @ mid @
              [StError (url_error_prefix @ exn_str e)])"
  using assms
  by (auto simp: load_image_from_url_def fetch_image_def raise_for_status_def open_rgb_def
      convert_def bindE_def call_def split: if_splits)

text \<open>
  A server answering 200 with a body that is not an image: the decoder raises, and the
  caller gets \<open>None\<close> and the user the decoder's message.
\<close>

theorem url_failures_share_one_handler_witness:
  "requests_get env_not_image demo_url True 10 = Inr response_text \<and>
   status_code response_text = 200 \<and>
   content response_text = Inr (ustr ''<html>'') \<and>
   image_open env_not_image (ustr ''<html>'') = Inl not_an_image \<and>
   exn_kind not_an_image = UnidentifiedImageError \<and>
   fst (load_image_from_url env_not_image demo_url (start_world demo_env)) = None \<and>
   last (trace (snd (load_image_from_url env_not_image demo_url (start_world demo_env)))) =
     StError (url_error_prefix @ ustr ''cannot identify image file'')"
  using url_failures_share_one_handler [where E = env_not_image and u = demo_url
      and w = "start_world demo_env" and e = not_an_image]
  by (simp add: run_defs demo_defs fail_defs ustr_def)

text \<open>
  Claim C2 as stated fails: a fetch that fails with an \<open>HTTPError\<close> (status 404) and a
  fetch that fails with an \<open>UnidentifiedImageError\<close> (the body is no image) return the
  same value to the caller.
\<close>

theorem failure_kinds_not_distinguished:
  "exn_kind (Exn HTTPError (error_text response_404)) = HTTPError \<and>
   fst (fetch_image env_404 demo_url (start_world demo_env)) =
     Inl (Exn HTTPError (error_text response_404)) \<and>
   exn_kind not_an_image = UnidentifiedImageError \<and>
   fst (fetch_image env_not_image demo_url (start_world demo_env)) = Inl not_an_image \<and>
   fst (load_image_from_url env_404 demo_url (start_world demo_env)) =
   fst (load_image_from_url env_not_image demo_url (start_world demo_env))"
  by (simp add: run_defs demo_defs fail_defs ustr_def)

end
